theory Spec2Isabelle
  imports Main "HOL-Library.Word"
begin

section \<open>Security utilities of the API (app/core/security.py)\<close>

subsection \<open>Python strings\<close>

text \<open>
  A Python \<open>str\<close> is a sequence of Unicode code points, and \<open>len\<close> counts code
  points.  A string is therefore a list of code points (natural numbers); an ASCII
  literal of the source is embedded with \<open>str\<close>.
\<close>

type_synonym codepoint = nat

type_synonym pystr = "codepoint list"

definition str :: "string \<Rightarrow> pystr" where
  "str s = map of_char s"

text \<open>
  The character classes of \<open>str.isupper\<close>, \<open>str.islower\<close> and \<open>str.isdigit\<close> on a
  one-character string.  On ASCII they are the ranges \<open>A-Z\<close>, \<open>a-z\<close> and \<open>0-9\<close>; beyond
  ASCII they are read off the Unicode character database of the interpreter, which is not
  part of the sources and is taken as a parameter.
\<close>

record unicode_db =
  db_upper :: "codepoint \<Rightarrow> bool"
  db_lower :: "codepoint \<Rightarrow> bool"
  db_digit :: "codepoint \<Rightarrow> bool"
  db_to_upper :: "codepoint \<Rightarrow> codepoint list"




text \<open>\<open>s.upper()\<close>: an ASCII lower-case letter becomes its upper-case letter, any other
  ASCII character stays, and a character beyond ASCII becomes what the database says
  (possibly several characters).\<close>

definition upper_char :: "unicode_db \<Rightarrow> codepoint \<Rightarrow> codepoint list" where
  "upper_char U c =
     (if c < 128 then [if 97 \<le> c \<and> c \<le> 122 then c - 32 else c] else db_to_upper U c)"

definition upper :: "unicode_db \<Rightarrow> codepoint list \<Rightarrow> codepoint list" where
  "upper U s = concat (map (upper_char U) s)"

text \<open>\<open>s.startswith(prefix)\<close>.\<close>

definition startswith :: "codepoint list \<Rightarrow> codepoint list \<Rightarrow> bool" where
  "startswith s prefix = (take (length prefix) s = prefix)"

text \<open>Python's \<open>any(p(c) for c in s)\<close>.\<close>

primrec any :: "('a \<Rightarrow> bool) \<Rightarrow> 'a list \<Rightarrow> bool" where
  "any p [] = False"
| "any p (c # cs) = (if p c then True else any p cs)"

text \<open>Python's \<open>c in s\<close> for a one-character \<open>c\<close>.\<close>

primrec contains :: "'a list \<Rightarrow> 'a \<Rightarrow> bool" where
  "contains [] c = False"
| "contains (x # xs) c = (if x = c then True else contains xs c)"


subsection \<open>Exceptions\<close>

text \<open>
  Every exception that the modelled code can raise is a value.  \<open>TokenError\<close> is the
  error of token validation, with the two subtypes the specification names.
\<close>

datatype token_failure = expired | invalid

datatype error =
    AttributeError
  | OverflowError
  | UnicodeEncodeError
  | UnicodeDecodeError
  | InvalidToken
  | UnknownHashError
  | TokenError token_failure

subsection \<open>Bytes and the UTF-8 codec\<close>

type_synonym byte = "8 word"

type_synonym bytes = "byte list"

text \<open>
  \<open>s.encode()\<close> and \<open>b.decode()\<close> use UTF-8 with strict error handling.  Encoding raises
  \<open>UnicodeEncodeError\<close> on a surrogate code point (\<open>U+D800\<close> to \<open>U+DFFF\<close>), which a Python
  string may hold; a number from \<open>0x110000\<close> on is no code point and occurs in no string.
\<close>

definition encode_char :: "codepoint \<Rightarrow> error + bytes" where
  "encode_char c =
     (if c < 0x80 then Inr [of_nat c]
      else if c < 0x800 then Inr [of_nat (0xC0 + c div 64), of_nat (0x80 + c mod 64)]
      else if 0xD800 \<le> c \<and> c \<le> 0xDFFF then Inl UnicodeEncodeError
      else if c < 0x10000 then
        Inr [of_nat (0xE0 + c div 4096), of_nat (0x80 + c div 64 mod 64),
             of_nat (0x80 + c mod 64)]
      else if c < 0x110000 then
        Inr [of_nat (0xF0 + c div 262144), of_nat (0x80 + c div 4096 mod 64),
             of_nat (0x80 + c div 64 mod 64), of_nat (0x80 + c mod 64)]
      else Inl UnicodeEncodeError)"

fun encode :: "pystr \<Rightarrow> error + bytes" where
  "encode [] = Inr []"
| "encode (c # cs) =
     (case encode_char c of
        Inl e \<Rightarrow> Inl e
      | Inr bs \<Rightarrow> (case encode cs of Inl e \<Rightarrow> Inl e | Inr rest \<Rightarrow> Inr (bs @ rest)))"

text \<open>
  Decoding accepts exactly the well-formed byte sequences: no overlong form, no
  surrogate, nothing beyond \<open>U+10FFFF\<close>, no truncated sequence.  \<open>decode_char\<close> reads one
  character from a lead byte and the bytes after it, and gives the code point and the
  number of continuation bytes it used.
\<close>

definition continuation :: "nat \<Rightarrow> nat \<Rightarrow> bytes \<Rightarrow> nat \<Rightarrow> bool" where
  "continuation lo hi bs i = (i < length bs \<and> lo \<le> unat (bs ! i) \<and> unat (bs ! i) \<le> hi)"

definition payload_bits :: "bytes \<Rightarrow> nat \<Rightarrow> nat" where
  "payload_bits bs i = unat (bs ! i) - 0x80"

definition decode_char :: "byte \<Rightarrow> bytes \<Rightarrow> error + (codepoint \<times> nat)" where
  "decode_char b bs =
     (let n = unat b in
      if n < 0x80 then Inr (n, 0)
      else if 0xC2 \<le> n \<and> n \<le> 0xDF then
        (if continuation 0x80 0xBF bs 0
         then Inr ((n - 0xC0) * 64 + payload_bits bs 0, 1)
         else Inl UnicodeDecodeError)
      else if 0xE0 \<le> n \<and> n \<le> 0xEF then
        (if continuation (if n = 0xE0 then 0xA0 else 0x80) (if n = 0xED then 0x9F else 0xBF) bs 0
            \<and> continuation 0x80 0xBF bs 1
         then Inr ((n - 0xE0) * 4096 + payload_bits bs 0 * 64 + payload_bits bs 1, 2)
         else Inl UnicodeDecodeError)
      else if 0xF0 \<le> n \<and> n \<le> 0xF4 then
        (if continuation (if n = 0xF0 then 0x90 else 0x80) (if n = 0xF4 then 0x8F else 0xBF) bs 0
            \<and> continuation 0x80 0xBF bs 1 \<and> continuation 0x80 0xBF bs 2
         then Inr ((n - 0xF0) * 262144 + payload_bits bs 0 * 4096 + payload_bits bs 1 * 64
                   + payload_bits bs 2, 3)
         else Inl UnicodeDecodeError)
      else Inl UnicodeDecodeError)"

fun decode :: "bytes \<Rightarrow> error + pystr" where
  "decode [] = Inr []"
| "decode (b # bs) =
     (case decode_char b bs of
        Inl e \<Rightarrow> Inl e
      | Inr (c, k) \<Rightarrow>
          (case decode (drop k bs) of Inl e \<Rightarrow> Inl e | Inr s \<Rightarrow> Inr (c # s)))"

text \<open>The code points that UTF-8 can encode, the Unicode scalar values.\<close>

definition scalar_value :: "codepoint \<Rightarrow> bool" where
  "scalar_value c = (c < 0xD800 \<or> 0xDFFF < c \<and> c < 0x110000)"

definition ascii :: "byte \<Rightarrow> bool" where
  "ascii b = (unat b < 0x80)"

subsection \<open>Configuration\<close>

text \<open>
  \<open>app.core.config.settings\<close> is not part of the sources; the values that the security
  module reads from it are the fields of a record that every operation takes as a
  parameter.
\<close>

record settings =
  JWT_SECRET_KEY :: pystr
  JWT_ALGORITHM :: pystr
  ACCESS_TOKEN_EXPIRE_MINUTES :: int
  REFRESH_TOKEN_EXPIRE_DAYS :: int

subsection \<open>Password hashing\<close>

text \<open>
  \<open>pwd_context\<close> is the object \<open>CryptContext(schemes=["argon2"], deprecated="auto")\<close> of the
  password hashing library, which is not part of the sources: a record of its method
  \<open>verify\<close>, which returns whether the password matches the stored hash, or raises.
  What the method computes is left open.
\<close>

record crypt_context =
  verify :: "pystr \<Rightarrow> pystr \<Rightarrow> error + bool"

text \<open>\<open>verify_password\<close> returns the result of \<open>pwd_context.verify\<close> and handles no
  exception.\<close>

definition verify_password :: "crypt_context \<Rightarrow> pystr \<Rightarrow> pystr \<Rightarrow> error + bool" where
  "verify_password pwd_context plain_password hashed_password =
     verify pwd_context plain_password hashed_password"

subsection \<open>Field encryption\<close>

text \<open>
  \<open>cipher\<close> is the object \<open>Fernet(settings.ENCRYPTION_KEY.encode())\<close> of the cryptography
  library, which is not part of the sources: a record of its two methods, both on bytes.
  \<open>encrypt\<close> also takes the fresh randomness and the time it draws in the call.  What
  the methods compute is left open; the properties below state what they assume.
\<close>

record cipher =
  encrypt :: "bytes \<Rightarrow> bytes \<Rightarrow> bytes"
  decrypt :: "bytes \<Rightarrow> error + bytes"

text \<open>\<open>cipher.encrypt(value.encode()).decode()\<close> and
  \<open>cipher.decrypt(encrypted_value.encode()).decode()\<close>.\<close>

definition encrypt_field :: "cipher \<Rightarrow> bytes \<Rightarrow> pystr \<Rightarrow> error + pystr" where
  "encrypt_field C fresh v =
     (case encode v of
        Inl e \<Rightarrow> Inl e
      | Inr plain \<Rightarrow> decode (encrypt C fresh plain))"

definition decrypt_field :: "cipher \<Rightarrow> pystr \<Rightarrow> error + pystr" where
  "decrypt_field C encrypted_value =
     (case encode encrypted_value of
        Inl e \<Rightarrow> Inl e
      | Inr tok \<Rightarrow> (case decrypt C tok of Inl e \<Rightarrow> Inl e | Inr plain \<Rightarrow> decode plain))"


subsection \<open>Instants and durations\<close>

text \<open>
  A naive UTC \<open>datetime\<close> is its number of microseconds since the epoch and a
  \<open>timedelta\<close> a number of microseconds, the resolution of both Python types.  Both types
  are bounded: a \<open>timedelta\<close> holds at most 999999999 days in absolute value, a
  \<open>datetime\<close> lies between the years 1 and 9999, and arithmetic that leaves the range
  raises \<open>OverflowError\<close>.
\<close>

type_synonym datetime = int

type_synonym timedelta = int

definition datetime_min :: datetime where
  "datetime_min = - 62135596800000000"

definition datetime_max :: datetime where
  "datetime_max = 253402300799999999"

definition timedelta_new :: "int \<Rightarrow> error + timedelta" where
  "timedelta_new us =
     (if \<bar>us div 86400000000\<bar> \<le> 999999999 then Inr us else Inl OverflowError)"

definition timedelta_minutes :: "int \<Rightarrow> error + timedelta" where
  "timedelta_minutes m = timedelta_new (m * 60000000)"

definition timedelta_days :: "int \<Rightarrow> error + timedelta" where
  "timedelta_days d = timedelta_new (d * 86400000000)"

definition datetime_add :: "datetime \<Rightarrow> timedelta \<Rightarrow> error + datetime" where
  "datetime_add t d =
     (if datetime_min \<le> t + d \<and> t + d \<le> datetime_max then Inr (t + d)
      else Inl OverflowError)"

subsection \<open>The store of dictionaries and the clock\<close>

text \<open>
  Dictionaries are mutable objects that the caller and the callee share by reference.
  The store is the list of the dictionaries allocated so far, a reference is an index
  into it.  The clock gives the value of each successive call of \<open>datetime.utcnow()\<close>.
\<close>

datatype claim_value = Str pystr | Num int | Instant datetime

type_synonym claims = "pystr \<rightharpoonup> claim_value"

type_synonym ref = nat

record world =
  heap :: "claims list"
  clock :: "nat \<Rightarrow> datetime"
  ticks :: nat

definition utcnow :: "world \<Rightarrow> datetime \<times> world" where
  "utcnow w = (clock w (ticks w), w\<lparr>ticks := Suc (ticks w)\<rparr>)"

text \<open>\<open>d.copy()\<close>: a new dictionary with the entries of \<open>d\<close>; a reference that denotes no
  dictionary has no such method.\<close>

definition dict_copy :: "world \<Rightarrow> ref \<Rightarrow> error + (ref \<times> world)" where
  "dict_copy w r =
     (if r < length (heap w)
      then Inr (length (heap w), w\<lparr>heap := heap w @ [heap w ! r]\<rparr>)
      else Inl AttributeError)"

text \<open>\<open>d.update(m)\<close>: the entries of \<open>m\<close> are written into \<open>d\<close> in place, replacing the
  values of the keys \<open>d\<close> already has.\<close>

definition dict_update :: "world \<Rightarrow> ref \<Rightarrow> claims \<Rightarrow> world" where
  "dict_update w r m = w\<lparr>heap := (heap w)[r := (heap w ! r) ++ m]\<rparr>"

subsection \<open>Signed tokens\<close>

text \<open>
  Modelled from the spec: the functions \<open>jwt.encode\<close> and \<open>jwt.decode\<close> of the JWT
  library, which are not part of the sources.  A signed token is "an opaque string
  encoding a ClaimSet, a signature, and the algorithm used"; the signature is kept
  symbolically as the secret it was made with, and any other string is \<open>Garbage\<close>.
  Decoding "verifies signature against the configured secret/algorithm and checks
  \<open>exp\<close> against current time", the token being valid "while now < exp" and expired
  from then on, and fails with a \<open>TokenError\<close> of subtype \<open>expired\<close> or \<open>invalid\<close>.
  A token that carries no instant under \<open>exp\<close> cannot pass that check and is
  \<open>invalid\<close>.
\<close>

datatype token = Signed pystr pystr claims | Garbage pystr

text \<open>Modelled from the spec: \<open>jwt.encode\<close>, which signs the claim set with the given
  secret under the given algorithm.\<close>

definition jwt_encode :: "claims \<Rightarrow> pystr \<Rightarrow> pystr \<Rightarrow> token" where
  "jwt_encode c key algorithm = Signed algorithm key c"

text \<open>Modelled from the spec: \<open>jwt.decode\<close>, which checks algorithm and signature and then
  \<open>exp\<close> against the current time \<open>now\<close>.\<close>

fun jwt_decode :: "datetime \<Rightarrow> token \<Rightarrow> pystr \<Rightarrow> pystr list \<Rightarrow> error + claims" where
  "jwt_decode now (Garbage s) key algorithms = Inl (TokenError invalid)"
| "jwt_decode now (Signed alg k c) key algorithms =
     (if \<not> contains algorithms alg \<or> k \<noteq> key then Inl (TokenError invalid)
      else case c (str ''exp'') of
             Some (Instant e) \<Rightarrow> if now < e then Inr c else Inl (TokenError expired)
           | _ \<Rightarrow> Inl (TokenError invalid))"

subsection \<open>Issuing and decoding tokens\<close>

definition reserved :: "datetime \<Rightarrow> datetime \<Rightarrow> string \<Rightarrow> claims" where
  "reserved expire now type =
     [str ''exp'' \<mapsto> Instant expire, str ''iat'' \<mapsto> Instant now, str ''type'' \<mapsto> Str (str type)]"

text \<open>The test \<open>if expires_delta:\<close> is the truth value of an optional \<open>timedelta\<close>:
  \<open>None\<close> is false, and so is the zero duration.\<close>

fun truthy :: "timedelta option \<Rightarrow> bool" where
  "truthy None = False"
| "truthy (Some d) = (d \<noteq> 0)"

definition default_expire :: "settings \<Rightarrow> datetime \<Rightarrow> error + datetime" where
  "default_expire S now =
     (case timedelta_minutes (ACCESS_TOKEN_EXPIRE_MINUTES S) of
        Inl e \<Rightarrow> Inl e
      | Inr life \<Rightarrow> datetime_add now life)"

text \<open>The expiry of an access token: \<open>now + expires_delta\<close> when \<open>expires_delta\<close> is true,
  and \<open>now + timedelta(minutes=settings.ACCESS_TOKEN_EXPIRE_MINUTES)\<close> otherwise.\<close>

definition access_expire :: "settings \<Rightarrow> datetime \<Rightarrow> timedelta option \<Rightarrow> error + datetime" where
  "access_expire S now expires_delta =
     (case expires_delta of
        Some d \<Rightarrow> if truthy (Some d) then datetime_add now d else default_expire S now
      | None \<Rightarrow> default_expire S now)"

text \<open>The expiry of a refresh token:
  \<open>now + timedelta(days=settings.REFRESH_TOKEN_EXPIRE_DAYS)\<close>.\<close>

definition refresh_expire :: "settings \<Rightarrow> datetime \<Rightarrow> error + datetime" where
  "refresh_expire S now =
     (case timedelta_days (REFRESH_TOKEN_EXPIRE_DAYS S) of
        Inl e \<Rightarrow> Inl e | Inr life \<Rightarrow> datetime_add now life)"

text \<open>\<open>create_access_token(data, expires_delta)\<close>: copy the caller's dictionary, compute the
  expiry from a first reading of the clock, write the three claims into the copy with a
  second reading as \<open>iat\<close>, and encode the copy.\<close>

definition create_access_token ::
  "settings \<Rightarrow> world \<Rightarrow> ref \<Rightarrow> timedelta option \<Rightarrow> (error + token) \<times> world" where
  "create_access_token S w data expires_delta =
     (case dict_copy w data of
        Inl e \<Rightarrow> (Inl e, w)
      | Inr (to_encode, w1) \<Rightarrow>
          (case utcnow w1 of (now1, w2) \<Rightarrow>
             (case access_expire S now1 expires_delta of
                Inl e \<Rightarrow> (Inl e, w2)
              | Inr expire \<Rightarrow>
                  (case utcnow w2 of (now2, w3) \<Rightarrow>
                     (let w4 = dict_update w3 to_encode (reserved expire now2 ''access'')
                      in (Inr (jwt_encode (heap w4 ! to_encode) (JWT_SECRET_KEY S)
                                 (JWT_ALGORITHM S)), w4))))))"

text \<open>\<open>create_refresh_token(data)\<close>: the same with the refresh lifetime and the type
  \<open>refresh\<close>.\<close>

definition create_refresh_token ::
  "settings \<Rightarrow> world \<Rightarrow> ref \<Rightarrow> (error + token) \<times> world" where
  "create_refresh_token S w data =
     (case dict_copy w data of
        Inl e \<Rightarrow> (Inl e, w)
      | Inr (to_encode, w1) \<Rightarrow>
          (case utcnow w1 of (now1, w2) \<Rightarrow>
             (case refresh_expire S now1 of
                Inl e \<Rightarrow> (Inl e, w2)
              | Inr expire \<Rightarrow>
                  (case utcnow w2 of (now2, w3) \<Rightarrow>
                     (let w4 = dict_update w3 to_encode (reserved expire now2 ''refresh'')
                      in (Inr (jwt_encode (heap w4 ! to_encode) (JWT_SECRET_KEY S)
                                 (JWT_ALGORITHM S)), w4))))))"

text \<open>\<open>decode_token\<close> hands the token, the configured secret and the one configured
  algorithm to the library, which reads the current time.\<close>

definition decode_token :: "settings \<Rightarrow> datetime \<Rightarrow> token \<Rightarrow> error + claims" where
  "decode_token S now tok = jwt_decode now tok (JWT_SECRET_KEY S) [JWT_ALGORITHM S]"

text \<open>The names of the claims that issuance owns.\<close>

definition reserved_names :: "pystr set" where
  "reserved_names = {str ''exp'', str ''iat'', str ''type''}"

text \<open>The claim set that a signed token encodes.\<close>

definition payload :: "token \<Rightarrow> claims" where
  "payload tok = (case tok of Signed alg k c \<Rightarrow> c | Garbage s \<Rightarrow> Map.empty)"

text \<open>The store in which the dictionary at a reference holds other entries: what a
  caller does to its own dictionary before it issues a token.\<close>

definition set_dict :: "world \<Rightarrow> ref \<Rightarrow> claims \<Rightarrow> world" where
  "set_dict w r c = w\<lparr>heap := (heap w)[r := c]\<rparr>"

subsection \<open>One-time codes\<close>

text \<open>
  Modelled from the spec: the method \<open>verify\<close> of the TOTP object of the one-time-password
  library, which is not part of the sources.  It "computes the time-step counter for
  the current instant and checks the presented code against a window of \<open>\<plusminus>1\<close> step (one
  30-second period each side)", and "returns false (never throws) for incorrect codes,
  wrong length, or non-numeric input".  A code is "derived from a shared secret and
  the current time step" (RFC 6238) and has the default six digits: it is the decimal
  numeral, padded with zeros to six digits, of a number that the keyed hash gives for
  the secret and the step, reduced modulo \<open>10\<^sup>6\<close>.  The keyed hash is the parameter
  \<open>hotp\<close>.
\<close>

text \<open>Modelled from the spec: the time-step counter of an instant, for the period of 30
  seconds.\<close>

definition timecode :: "datetime \<Rightarrow> int" where
  "timecode now = now div 30000000"

text \<open>Modelled from the spec: the six decimal digits of a number below \<open>10\<^sup>6\<close>.\<close>

definition six_digits :: "nat \<Rightarrow> pystr" where
  "six_digits n = map (\<lambda>i. 48 + n div 10 ^ i mod 10) [5, 4, 3, 2, 1, 0]"

text \<open>Modelled from the spec: the code of a secret at a time step.\<close>

definition generate_otp :: "(pystr \<Rightarrow> int \<Rightarrow> nat) \<Rightarrow> pystr \<Rightarrow> int \<Rightarrow> pystr" where
  "generate_otp hotp secret counter = six_digits (hotp secret counter mod 1000000)"

text \<open>Modelled from the spec: \<open>TOTP(secret).verify(otp, valid_window)\<close> at the instant
  \<open>now\<close>, which tries the steps from \<open>-valid_window\<close> to \<open>valid_window\<close> around the current one.\<close>

definition totp_verify ::
  "(pystr \<Rightarrow> int \<Rightarrow> nat) \<Rightarrow> pystr \<Rightarrow> pystr \<Rightarrow> datetime \<Rightarrow> nat \<Rightarrow> bool" where
  "totp_verify hotp secret otp now valid_window =
     any (\<lambda>i. otp = generate_otp hotp secret (timecode now + i))
       [- int valid_window .. int valid_window]"

text \<open>\<open>verify_totp\<close> allows one period of clock drift.\<close>

definition verify_totp :: "(pystr \<Rightarrow> int \<Rightarrow> nat) \<Rightarrow> pystr \<Rightarrow> pystr \<Rightarrow> datetime \<Rightarrow> bool" where
  "verify_totp hotp secret code now = totp_verify hotp secret code now 1"

definition ascii_digit :: "codepoint \<Rightarrow> bool" where
  "ascii_digit c = (48 \<le> c \<and> c \<le> 57)"

subsection \<open>The random source of the system\<close>

text \<open>
  The random source of the operating system is the sequence of the bytes it will hand
  out, together with the number of bytes drawn so far.
\<close>

record rng =
  source :: "nat \<Rightarrow> byte"
  drawn :: nat

definition token_bytes :: "nat \<Rightarrow> rng \<Rightarrow> bytes \<times> rng" where
  "token_bytes n r = (map (source r) [drawn r ..< drawn r + n], r\<lparr>drawn := drawn r + n\<rparr>)"

text \<open>\<open>bytes.hex()\<close>: two lower-case hexadecimal digits for each byte.\<close>

definition hexdigit :: "nat \<Rightarrow> codepoint" where
  "hexdigit n = str ''0123456789abcdef'' ! n"

definition hex :: "bytes \<Rightarrow> pystr" where
  "hex bs = concat (map (\<lambda>b. [hexdigit (unat b div 16), hexdigit (unat b mod 16)]) bs)"

text \<open>\<open>secrets.token_hex(nbytes)\<close>.\<close>

definition token_hex :: "nat \<Rightarrow> rng \<Rightarrow> pystr \<times> rng" where
  "token_hex nbytes r = (case token_bytes nbytes r of (bs, r') \<Rightarrow> (hex bs, r'))"

subsection \<open>Backup codes\<close>

text \<open>The loop \<open>for _ in range(count)\<close> with its accumulator \<open>codes\<close>; \<open>range\<close> of a
  negative number is empty.\<close>

fun backup_loop :: "unicode_db \<Rightarrow> nat \<Rightarrow> pystr list \<Rightarrow> rng \<Rightarrow> pystr list \<times> rng" where
  "backup_loop U 0 codes r = (codes, r)"
| "backup_loop U (Suc n) codes r =
     (case token_hex 4 r of (h, r') \<Rightarrow> backup_loop U n (codes @ [upper U h]) r')"

definition generate_backup_codes :: "unicode_db \<Rightarrow> int option \<Rightarrow> rng \<Rightarrow> pystr list \<times> rng" where
  "generate_backup_codes U count r =
     backup_loop U (nat (case count of None \<Rightarrow> 10 | Some n \<Rightarrow> n)) [] r"

text \<open>The shape of a backup code: eight characters, each an upper-case hexadecimal digit.\<close>

definition hex_upper :: "codepoint \<Rightarrow> bool" where
  "hex_upper c = contains (str ''0123456789ABCDEF'') c"

definition backup_code :: "pystr \<Rightarrow> bool" where
  "backup_code code = (length code = 8 \<and> list_all hex_upper code)"

subsection \<open>Password validation\<close>














subsection \<open>Concrete values for evaluation\<close>

definition example_settings :: settings where
  "example_settings =
     \<lparr>JWT_SECRET_KEY = str ''secret'', JWT_ALGORITHM = str ''HS256'',
      ACCESS_TOKEN_EXPIRE_MINUTES = 30, REFRESH_TOKEN_EXPIRE_DAYS = 7\<rparr>"

definition example_claims :: claims where
  "example_claims = [str ''sub'' \<mapsto> Str (str ''user-1''), str ''exp'' \<mapsto> Num 0]"

definition example_world :: world where
  "example_world = \<lparr>heap = [example_claims], clock = (\<lambda>n. 1000 + int n), ticks = 0\<rparr>"

text \<open>A stand-in for the keyed hash, for concrete evaluation.\<close>

definition example_hotp :: "pystr \<Rightarrow> int \<Rightarrow> nat" where
  "example_hotp secret counter = 7919 * length secret + 104729 * nat \<bar>counter\<bar>"

text \<open>A stand-in cipher for concrete evaluation: it writes every byte of the fresh bytes
  and of the plaintext as two letters, and reads them back.\<close>

fun armour :: "bytes \<Rightarrow> bytes" where
  "armour [] = []"
| "armour (b # bs) = of_nat (65 + unat b div 16) # of_nat (65 + unat b mod 16) # armour bs"

fun unarmour :: "bytes \<Rightarrow> error + bytes" where
  "unarmour [] = Inr []"
| "unarmour [h] = Inl InvalidToken"
| "unarmour (h # l # bs) =
     (if 65 \<le> unat h \<and> unat h < 81 \<and> 65 \<le> unat l \<and> unat l < 81
      then (case unarmour bs of
              Inl e \<Rightarrow> Inl e
            | Inr r \<Rightarrow> Inr (of_nat ((unat h - 65) * 16 + (unat l - 65)) # r))
      else Inl InvalidToken)"

definition example_cipher :: cipher where
  "example_cipher = \<lparr>encrypt = (\<lambda>fresh plain. armour (fresh @ plain)),
                      decrypt = (\<lambda>tok. case unarmour tok of Inl e \<Rightarrow> Inl e
                                         | Inr p \<Rightarrow> Inr (drop 2 p))\<rparr>"

definition example_rng :: rng where
  "example_rng = \<lparr>source = (\<lambda>k. of_nat (37 * k + 171)), drawn = 0\<rparr>"

definition example_db :: unicode_db where
  "example_db = \<lparr>db_upper = (\<lambda>c. False), db_lower = (\<lambda>c. False), db_digit = (\<lambda>c. False),
                 db_to_upper = (\<lambda>c. [c])\<rparr>"



text \<open>A stand-in hashing context.  It raises \<open>UnknownHashError\<close> for a stored hash that does
  not begin with \<open>$argon2\<close>, lower-case letters and \<open>$\<close>; it knows one stored hash, which it
  takes for the hash of the string \<open>password\<close>, and reports a mismatch in every other
  case.\<close>

definition lower_ascii :: "codepoint \<Rightarrow> bool" where
  "lower_ascii c = (97 \<le> c \<and> c \<le> 122)"

definition identified :: "pystr \<Rightarrow> bool" where
  "identified hash =
     (startswith hash (str ''$argon2'')
      \<and> (let letters = takeWhile lower_ascii (drop 7 hash)
         in letters \<noteq> [] \<and> startswith (drop (7 + length letters) hash) (str ''$'')))"

definition known_hash :: pystr where
  "known_hash = str ''$argon2i$v=19$m=65536,t=2,p=4$c29tZXNhbHQ$RdescudvJCsgt3ub+b+dWRWJTmaaJObG''"

definition example_context :: crypt_context where
  "example_context =
     \<lparr>verify = (\<lambda>secret hash.
        if identified hash then Inr (hash = known_hash \<and> secret = str ''password'')
        else Inl UnknownHashError)\<rparr>"

section \<open>Properties\<close>

subsection \<open>Password verification\<close>

lemma not_a_hash: "verify example_context p (str ''not-a-hash'') = Inl UnknownHashError"
  by (simp add: example_context_def identified_def startswith_def str_def)

text \<open>
  Claim C4, as amended.  \<open>verify_password\<close> returns exactly what the \<open>verify\<close> of the hashing
  context returns and raises exactly what it raises: an exception of the context for a
  stored hash that is not well formed reaches the caller, and \<open>verify_password\<close> returns
  false for such a hash exactly when the context does.
\<close>

theorem verify_password_propagates:
  "verify_password C p h = verify C p h
   \<and> (\<forall>e. verify C p h = Inl e \<longrightarrow> verify_password C p h = Inl e)
   \<and> (verify_password C p h = Inr False \<longleftrightarrow> verify C p h = Inr False)"
  by (simp add: verify_password_def)

lemma known_hash_identified: "identified known_hash"
  by (simp add: known_hash_def identified_def startswith_def lower_ascii_def str_def)

theorem verify_password_propagates_witness:
  "verify_password example_context (str ''hunter2'') (str ''not-a-hash'') = Inl UnknownHashError
   \<and> verify_password example_context (str ''hunter2'') known_hash = Inr False
   \<and> verify_password example_context (str ''password'') known_hash = Inr True"
proof -
  have miss: "verify example_context (str ''hunter2'') known_hash = Inr False"
    by (simp add: example_context_def known_hash_identified str_def)
  have hit: "verify example_context (str ''password'') known_hash = Inr True"
    by (simp add: example_context_def known_hash_identified)
  from miss hit show ?thesis
    using verify_password_propagates[of example_context "str ''hunter2''" "str ''not-a-hash''"]
      verify_password_propagates[of example_context "str ''hunter2''" known_hash]
      verify_password_propagates[of example_context "str ''password''" known_hash]
      not_a_hash[of "str ''hunter2''"]
    by simp
qed

text \<open>
  Claim C4 as stated fails where the hashing context raises for a malformed hash, as it
  does for a stored hash that it cannot identify: for the string \<open>not-a-hash\<close> the call
  raises \<open>UnknownHashError\<close> and does not return false; and for no context at all does
  the call return false where the context raises.
\<close>

theorem verify_password_malformed_hash_counterexample:
  "verify_password example_context (str ''hunter2'') (str ''not-a-hash'') = Inl UnknownHashError
   \<and> verify_password example_context (str ''hunter2'') (str ''not-a-hash'') \<noteq> Inr False
   \<and> (\<forall>C e. \<not> (verify C (str ''hunter2'') (str ''not-a-hash'') = Inl e
              \<and> verify_password C (str ''hunter2'') (str ''not-a-hash'') = Inr False))"
  by (simp add: verify_password_def not_a_hash)

subsection \<open>The UTF-8 codec\<close>

lemma unat_byte: "k < 256 \<Longrightarrow> unat (of_nat k :: byte) = k"
  by (simp add: unat_of_nat)

lemma encode_char_scalar: "(\<exists>bs. encode_char c = Inr bs) \<longleftrightarrow> scalar_value c"
  by (auto simp: encode_char_def scalar_value_def)

lemma encode_char_error: "\<not> scalar_value c \<Longrightarrow> encode_char c = Inl UnicodeEncodeError"
  by (auto simp: encode_char_def scalar_value_def)

lemma decode_char_1: "unat b < 0x80 \<Longrightarrow> decode_char b rest = Inr (unat b, 0)"
  by (simp add: decode_char_def)

lemma decode_char_2:
  assumes "unat b = 0xC0 + hi" "2 \<le> hi" "hi < 32" "unat b1 = 0x80 + lo" "lo < 64"
  shows "decode_char b (b1 # rest) = Inr (hi * 64 + lo, 1)"
  using assms by (simp add: decode_char_def continuation_def payload_bits_def)

lemma decode_char_3:
  assumes "unat b = 0xE0 + hi" "hi < 16" "unat b1 = 0x80 + mid" "mid < 64"
    "unat b2 = 0x80 + lo" "lo < 64" "hi = 0 \<longrightarrow> 32 \<le> mid" "hi = 13 \<longrightarrow> mid < 32"
  shows "decode_char b (b1 # b2 # rest) = Inr (hi * 4096 + mid * 64 + lo, 2)"
  using assms by (auto simp: decode_char_def continuation_def payload_bits_def)

lemma decode_char_4:
  assumes "unat b = 0xF0 + hi" "hi < 5" "unat b1 = 0x80 + m1" "m1 < 64"
    "unat b2 = 0x80 + m2" "m2 < 64" "unat b3 = 0x80 + lo" "lo < 64"
    "hi = 0 \<longrightarrow> 16 \<le> m1" "hi = 4 \<longrightarrow> m1 < 16"
  shows "decode_char b (b1 # b2 # b3 # rest) = Inr (hi * 262144 + m1 * 4096 + m2 * 64 + lo, 3)"
  using assms by (auto simp: decode_char_def continuation_def payload_bits_def)

lemma lead_byte: "k + n < 256 \<Longrightarrow> unat (of_nat (k + n) :: byte) = k + n"
  by (rule unat_byte)

text \<open>digits of a code point in base 64\<close>

lemma div_4096: "(c::nat) div 4096 = c div 64 div 64"
  by (simp add: div_mult2_eq[symmetric])

lemma div_262144: "(c::nat) div 262144 = c div 64 div 64 div 64"
  by (simp add: div_mult2_eq[symmetric])

lemma digits3:
  fixes c :: nat
  shows "c div 4096 * 4096 + c div 64 mod 64 * 64 + c mod 64 = c"
proof -
  have "c div 64 = c div 64 div 64 * 64 + c div 64 mod 64" by simp
  moreover have "c = c div 64 * 64 + c mod 64" by simp
  ultimately show ?thesis unfolding div_4096 by linarith
qed

lemma digits4:
  fixes c :: nat
  shows "c div 262144 * 262144 + c div 4096 mod 64 * 4096 + c div 64 mod 64 * 64 + c mod 64 = c"
proof -
  define q1 where "q1 = c div 64"
  define q2 where "q2 = q1 div 64"
  have "q2 = q2 div 64 * 64 + q2 mod 64" by simp
  moreover have "q1 = q2 * 64 + q1 mod 64" unfolding q2_def by simp
  moreover have "c = q1 * 64 + c mod 64" unfolding q1_def by simp
  ultimately have "q2 div 64 * 262144 + q2 mod 64 * 4096 + q1 mod 64 * 64 + c mod 64 = c"
    by linarith
  then show ?thesis unfolding div_262144 div_4096 q2_def q1_def .
qed

lemma decode_encode_char:
  assumes "encode_char c = Inr bs"
  shows "\<exists>b tl. bs = b # tl \<and> decode_char b (tl @ rest) = Inr (c, length tl)"
proof -
  consider "c < 0x80" | "0x80 \<le> c" "c < 0x800"
    | "0x800 \<le> c" "c < 0x10000" "c < 0xD800 \<or> 0xDFFF < c"
    | "0x10000 \<le> c" "c < 0x110000"
    using assms by (auto simp: encode_char_def split: if_splits)
  then show ?thesis
  proof cases
    case 1
    then have "bs = [of_nat c]" using assms by (simp add: encode_char_def)
    moreover have "unat (of_nat c :: byte) = c" using 1 by (intro unat_byte) simp
    ultimately show ?thesis using 1 decode_char_1[of "of_nat c" rest] by simp
  next
    case 2
    have bs: "bs = [of_nat (0xC0 + c div 64), of_nat (0x80 + c mod 64)]"
      using assms 2 by (simp add: encode_char_def)
    have hi: "2 \<le> c div 64" "c div 64 < 32" using 2 by simp_all
    have lo: "c mod 64 < 64" by simp
    have b0: "unat (of_nat (0xC0 + c div 64) :: byte) = 0xC0 + c div 64"
      using hi by (intro lead_byte) simp
    have b1: "unat (of_nat (0x80 + c mod 64) :: byte) = 0x80 + c mod 64"
      using lo by (intro lead_byte) simp
    have "c div 64 * 64 + c mod 64 = c" by simp
    with decode_char_2[OF b0 hi b1 lo, of rest] show ?thesis
      by (simp only: bs list.inject append_Cons append_Nil list.size) simp
  next
    case 3
    have bs: "bs = [of_nat (0xE0 + c div 4096), of_nat (0x80 + c div 64 mod 64),
                    of_nat (0x80 + c mod 64)]"
      using assms 3 by (auto simp: encode_char_def)
    have hi: "c div 4096 < 16" using 3 by simp
    have mid: "c div 64 mod 64 < 64" and lo: "c mod 64 < 64" by simp_all
    have b0: "unat (of_nat (0xE0 + c div 4096) :: byte) = 0xE0 + c div 4096"
      using hi by (intro lead_byte) simp
    have b1: "unat (of_nat (0x80 + c div 64 mod 64) :: byte) = 0x80 + c div 64 mod 64"
      using mid by (intro lead_byte) simp
    have b2: "unat (of_nat (0x80 + c mod 64) :: byte) = 0x80 + c mod 64"
      using lo by (intro lead_byte) simp
    have q: "c div 64 = c div 4096 * 64 + c div 64 mod 64" unfolding div_4096 by simp
    have low: "32 \<le> c div 64" using 3(1) by simp
    have e0: "c div 4096 = 0 \<longrightarrow> 32 \<le> c div 64 mod 64" using q low by simp
    have ed: "c div 4096 = 13 \<longrightarrow> c div 64 mod 64 < 32"
    proof
      assume d: "c div 4096 = 13"
      then have "c < 14 * 4096" using 3(2) by simp
      with 3(3) have "c < 0xD800" by simp
      then have "c div 64 < 864" by simp
      with q d show "c div 64 mod 64 < 32" by linarith
    qed
    from decode_char_3[OF b0 hi b1 mid b2 lo e0 ed, of rest] digits3[of c] show ?thesis
      by (simp only: bs list.inject append_Cons append_Nil list.size) simp
  next
    case 4
    have bs: "bs = [of_nat (0xF0 + c div 262144), of_nat (0x80 + c div 4096 mod 64),
                    of_nat (0x80 + c div 64 mod 64), of_nat (0x80 + c mod 64)]"
      using assms 4 by (auto simp: encode_char_def)
    have hi: "c div 262144 < 5" using 4 by simp
    have m1: "c div 4096 mod 64 < 64" and m2: "c div 64 mod 64 < 64" and lo: "c mod 64 < 64"
      by simp_all
    have b0: "unat (of_nat (0xF0 + c div 262144) :: byte) = 0xF0 + c div 262144"
      using hi by (intro lead_byte) simp
    have b1: "unat (of_nat (0x80 + c div 4096 mod 64) :: byte) = 0x80 + c div 4096 mod 64"
      using m1 by (intro lead_byte) simp
    have b2: "unat (of_nat (0x80 + c div 64 mod 64) :: byte) = 0x80 + c div 64 mod 64"
      using m2 by (intro lead_byte) simp
    have b3: "unat (of_nat (0x80 + c mod 64) :: byte) = 0x80 + c mod 64"
      using lo by (intro lead_byte) simp
    have q: "c div 4096 = c div 262144 * 64 + c div 4096 mod 64"
      unfolding div_262144 div_4096 by simp
    have low: "16 \<le> c div 4096" using 4(1) by simp
    have up: "c div 4096 < 272" using 4(2) by simp
    have f0: "c div 262144 = 0 \<longrightarrow> 16 \<le> c div 4096 mod 64" using q low by simp
    have f4: "c div 262144 = 4 \<longrightarrow> c div 4096 mod 64 < 16" using q up by simp
    from decode_char_4[OF b0 hi b1 m1 b2 m2 b3 lo f0 f4, of rest] digits4[of c] show ?thesis
      by (simp only: bs list.inject append_Cons append_Nil list.size) simp
  qed
qed

lemma decode_append:
  assumes "encode s = Inr bs"
  shows "decode (bs @ rest) = (case decode rest of Inl e \<Rightarrow> Inl e | Inr t \<Rightarrow> Inr (s @ t))"
  using assms
proof (induction s arbitrary: bs)
  case Nil
  then show ?case by (simp split: sum.splits)
next
  case (Cons c s)
  from Cons.prems obtain cb sb where cb: "encode_char c = Inr cb" and sb: "encode s = Inr sb"
    and bs: "bs = cb @ sb"
    by (auto split: sum.splits)
  from decode_encode_char[OF cb, of "sb @ rest"] obtain b tl where
    b: "cb = b # tl" "decode_char b (tl @ sb @ rest) = Inr (c, length tl)"
    by blast
  have "decode (bs @ rest) = decode (b # (tl @ sb @ rest))" by (simp add: bs b(1))
  also have "\<dots> = (case decode (sb @ rest) of Inl e \<Rightarrow> Inl e | Inr t \<Rightarrow> Inr (c # t))"
    by (simp add: b(2))
  also have "\<dots> = (case decode rest of Inl e \<Rightarrow> Inl e | Inr t \<Rightarrow> Inr ((c # s) @ t))"
    by (simp add: Cons.IH[OF sb] split: sum.splits)
  finally show ?case .
qed

lemma decode_encode: "encode s = Inr bs \<Longrightarrow> decode bs = Inr s"
  using decode_append[of s bs "[]"] by simp

lemma encode_scalar: "list_all scalar_value s \<Longrightarrow> \<exists>bs. encode s = Inr bs"
proof (induction s)
  case Nil
  show ?case by simp
next
  case (Cons c s)
  then obtain cb sb where "encode_char c = Inr cb" "encode s = Inr sb"
    using encode_char_scalar[of c] by auto
  then show ?case by simp
qed

lemma encode_not_scalar: "\<not> list_all scalar_value s \<Longrightarrow> encode s = Inl UnicodeEncodeError"
proof (induction s)
  case Nil
  then show ?case by simp
next
  case (Cons c s)
  show ?case
  proof (cases "scalar_value c")
    case True
    with Cons have "encode s = Inl UnicodeEncodeError" by simp
    moreover from True obtain cb where "encode_char c = Inr cb"
      using encode_char_scalar[of c] by blast
    ultimately show ?thesis by simp
  next
    case False
    then show ?thesis by (simp add: encode_char_error)
  qed
qed

lemma ascii_codec:
  "list_all ascii bs \<Longrightarrow> decode bs = Inr (map unat bs) \<and> encode (map unat bs) = Inr bs"
proof (induction bs)
  case Nil
  show ?case by simp
next
  case (Cons b bs)
  then have b: "unat b < 0x80" and IH: "decode bs = Inr (map unat bs)"
    "encode (map unat bs) = Inr bs"
    by (simp_all add: ascii_def)
  have "encode_char (unat b) = Inr [b]" using b by (simp add: encode_char_def)
  with IH b show ?case by (simp add: decode_char_1)
qed





subsection \<open>Field encryption\<close>

text \<open>
  Claim C2, as amended.  Let \<open>m\<close> be a string of Unicode scalar values, that is, one
  without a surrogate code point, and let the cipher, on the UTF-8 encoding of \<open>m\<close>,
  produce a token of ASCII bytes that it decrypts to that encoding again.  Then
  \<open>encrypt_field\<close> returns a blob, and \<open>decrypt_field\<close> of that blob returns \<open>m\<close>.  For any
  other \<open>m\<close>, \<open>encrypt_field\<close> raises \<open>UnicodeEncodeError\<close>.
\<close>

theorem field_roundtrip:
  "(list_all scalar_value m
      \<and> (\<forall>plain. encode m = Inr plain \<longrightarrow>
             list_all ascii (encrypt C fresh plain)
             \<and> decrypt C (encrypt C fresh plain) = Inr plain)
    \<longrightarrow> (\<exists>blob. encrypt_field C fresh m = Inr blob \<and> decrypt_field C blob = Inr m))
   \<and> (\<not> list_all scalar_value m \<longrightarrow> encrypt_field C fresh m = Inl UnicodeEncodeError)"
proof (intro conjI impI)
  assume "list_all scalar_value m
      \<and> (\<forall>plain. encode m = Inr plain \<longrightarrow>
             list_all ascii (encrypt C fresh plain)
             \<and> decrypt C (encrypt C fresh plain) = Inr plain)"
  then have scalar: "list_all scalar_value m"
    and lib: "\<forall>plain. encode m = Inr plain \<longrightarrow>
                list_all ascii (encrypt C fresh plain)
                \<and> decrypt C (encrypt C fresh plain) = Inr plain"
    by simp_all
  from scalar obtain plain where plain: "encode m = Inr plain" using encode_scalar by blast
  with lib have a: "list_all ascii (encrypt C fresh plain)"
    and d: "decrypt C (encrypt C fresh plain) = Inr plain"
    by simp_all
  let ?blob = "map unat (encrypt C fresh plain)"
  from ascii_codec[OF a] have "encrypt_field C fresh m = Inr ?blob"
    and "encode ?blob = Inr (encrypt C fresh plain)"
    by (simp_all add: encrypt_field_def plain)
  moreover from this(2) have "decrypt_field C ?blob = Inr m"
    by (simp add: decrypt_field_def d decode_encode[OF plain])
  ultimately show "\<exists>blob. encrypt_field C fresh m = Inr blob \<and> decrypt_field C blob = Inr m"
    by blast
next
  assume "\<not> list_all scalar_value m"
  then show "encrypt_field C fresh m = Inl UnicodeEncodeError"
    by (simp add: encrypt_field_def encode_not_scalar)
qed

lemma ex_plain: "encode [0x70, 0xE9, 0x20AC] = Inr [0x70, 0xC3, 0xA9, 0xE2, 0x82, 0xAC]"
  by (simp add: encode_char_def)

lemma ex_cipher:
  "list_all ascii (encrypt example_cipher [0x01, 0xFF] [0x70, 0xC3, 0xA9, 0xE2, 0x82, 0xAC])
   \<and> decrypt example_cipher (encrypt example_cipher [0x01, 0xFF] [0x70, 0xC3, 0xA9, 0xE2, 0x82, 0xAC])
       = Inr [0x70, 0xC3, 0xA9, 0xE2, 0x82, 0xAC]"
  by (simp add: example_cipher_def ascii_def)

theorem field_roundtrip_witness:
  "(\<exists>blob. encrypt_field example_cipher [0x01, 0xFF] [0x70, 0xE9, 0x20AC] = Inr blob
      \<and> decrypt_field example_cipher blob = Inr [0x70, 0xE9, 0x20AC])
   \<and> encrypt_field example_cipher [0x01, 0xFF] [0x70, 0xDC00] = Inl UnicodeEncodeError"
proof -
  have s: "list_all scalar_value [0x70, 0xE9, 0x20AC]" by (simp add: scalar_value_def)
  have l: "\<forall>plain. encode [0x70, 0xE9, 0x20AC] = Inr plain \<longrightarrow>
             list_all ascii (encrypt example_cipher [0x01, 0xFF] plain)
             \<and> decrypt example_cipher (encrypt example_cipher [0x01, 0xFF] plain) = Inr plain"
    using ex_cipher by (simp only: ex_plain) simp
  have n: "\<not> list_all scalar_value [0x70, 0xDC00]" by (simp add: scalar_value_def)
  from field_roundtrip[of "[0x70, 0xE9, 0x20AC]" example_cipher "[0x01, 0xFF]"] s l
  have "\<exists>blob. encrypt_field example_cipher [0x01, 0xFF] [0x70, 0xE9, 0x20AC] = Inr blob
      \<and> decrypt_field example_cipher blob = Inr [0x70, 0xE9, 0x20AC]"
    by blast
  moreover from field_roundtrip[of "[0x70, 0xDC00]" example_cipher "[0x01, 0xFF]"] n
  have "encrypt_field example_cipher [0x01, 0xFF] [0x70, 0xDC00] = Inl UnicodeEncodeError"
    by blast
  ultimately show ?thesis by blast
qed

text \<open>
  Claim C2 as stated fails for a string that holds a surrogate code point: whatever the
  cipher, \<open>encrypt_field\<close> raises \<open>UnicodeEncodeError\<close> before the cipher is called.
\<close>

theorem field_roundtrip_surrogate_counterexample:
  "\<forall>C fresh. encrypt_field C fresh [0xD800] = Inl UnicodeEncodeError"
  by (simp add: encrypt_field_def encode_char_def)










subsection \<open>Token issuance and decoding\<close>

lemma str_keys_distinct [simp]:
  "str ''exp'' \<noteq> str ''iat''" "str ''exp'' \<noteq> str ''type''" "str ''iat'' \<noteq> str ''type''"
  "str ''iat'' \<noteq> str ''exp''" "str ''type'' \<noteq> str ''exp''" "str ''type'' \<noteq> str ''iat''"
  by (simp_all add: str_def)

lemma create_access_token_eq:
  assumes "data < length (heap w)"
  shows "create_access_token S w data ttl =
     (case access_expire S (clock w (ticks w)) ttl of
        Inl e \<Rightarrow> (Inl e, w\<lparr>heap := heap w @ [heap w ! data], ticks := Suc (ticks w)\<rparr>)
      | Inr e \<Rightarrow>
          (Inr (Signed (JWT_ALGORITHM S) (JWT_SECRET_KEY S)
                  (heap w ! data ++ reserved e (clock w (Suc (ticks w))) ''access'')),
           w\<lparr>heap := heap w @ [heap w ! data ++ reserved e (clock w (Suc (ticks w))) ''access''],
             ticks := Suc (Suc (ticks w))\<rparr>))"
  using assms
  by (simp add: create_access_token_def dict_copy_def utcnow_def dict_update_def jwt_encode_def
      Let_def split: sum.splits)

lemma create_refresh_token_eq:
  assumes "data < length (heap w)"
  shows "create_refresh_token S w data =
     (case refresh_expire S (clock w (ticks w)) of
        Inl e \<Rightarrow> (Inl e, w\<lparr>heap := heap w @ [heap w ! data], ticks := Suc (ticks w)\<rparr>)
      | Inr e \<Rightarrow>
          (Inr (Signed (JWT_ALGORITHM S) (JWT_SECRET_KEY S)
                  (heap w ! data ++ reserved e (clock w (Suc (ticks w))) ''refresh'')),
           w\<lparr>heap := heap w @ [heap w ! data ++ reserved e (clock w (Suc (ticks w))) ''refresh''],
             ticks := Suc (Suc (ticks w))\<rparr>))"
  using assms
  by (simp add: create_refresh_token_def dict_copy_def utcnow_def dict_update_def jwt_encode_def
      Let_def split: sum.splits)

lemma create_access_token_dead:
  "\<not> data < length (heap w) \<Longrightarrow> create_access_token S w data ttl = (Inl AttributeError, w)"
  by (simp add: create_access_token_def dict_copy_def)

lemma create_refresh_token_dead:
  "\<not> data < length (heap w) \<Longrightarrow> create_refresh_token S w data = (Inl AttributeError, w)"
  by (simp add: create_refresh_token_def dict_copy_def)

lemma reserved_dom: "dom (reserved e t ty) = reserved_names"
  by (auto simp: reserved_def reserved_names_def split: if_splits)

lemma add_reserved_cong:
  assumes "\<forall>k. k \<notin> reserved_names \<longrightarrow> c k = c' k"
  shows "c ++ reserved e t ty = c' ++ reserved e t ty"
proof
  fix k
  show "(c ++ reserved e t ty) k = (c' ++ reserved e t ty) k"
  proof (cases "k \<in> reserved_names")
    case True
    then have "k \<in> dom (reserved e t ty)" by (simp add: reserved_dom)
    then show ?thesis by (auto simp: map_add_def split: option.splits)
  next
    case False
    then have "reserved e t ty k = None" using reserved_dom[of e t ty] by blast
    then show ?thesis using assms False by (simp add: map_add_def)
  qed
qed

lemma reserved_values:
  "(c ++ reserved e t ty) (str ''exp'') = Some (Instant e)"
  "(c ++ reserved e t ty) (str ''iat'') = Some (Instant t)"
  "(c ++ reserved e t ty) (str ''type'') = Some (Str (str ty))"
  by (simp_all add: reserved_def map_add_def)

lemma reserved_other:
  "k \<notin> reserved_names \<Longrightarrow> (c ++ reserved e t ty) k = c k"
  by (simp add: reserved_def reserved_names_def map_add_def)

lemma decode_signed:
  "decode_token S now (Signed (JWT_ALGORITHM S) (JWT_SECRET_KEY S) c) =
     (case c (str ''exp'') of
        Some (Instant e) \<Rightarrow> if now < e then Inr c else Inl (TokenError expired)
      | _ \<Rightarrow> Inl (TokenError invalid))"
  by (simp add: decode_token_def)

lemma timedelta_minutes_Inr: "timedelta_minutes m = Inr life \<Longrightarrow> life = m * 60000000"
  by (simp add: timedelta_minutes_def timedelta_new_def split: if_splits)

lemma timedelta_days_Inr: "timedelta_days m = Inr life \<Longrightarrow> life = m * 86400000000"
  by (simp add: timedelta_days_def timedelta_new_def split: if_splits)

text \<open>
  Claim C1, as amended.  Let \<open>life\<close> be the override when a non-zero override is given,
  and the configured number of minutes when none is given, and let the sum of the
  issuance instant and \<open>life\<close> be a representable instant.  Then issuance returns a token; at
  every instant before issuance plus \<open>life\<close> decoding succeeds and yields \<open>type\<close> equal to
  \<open>access\<close> and \<open>exp\<close> equal to issuance plus \<open>life\<close>; at every instant after it decoding
  fails with the \<open>expired\<close> token error.
\<close>

theorem access_token_decodes_until_expiry:
  assumes live: "data < length (heap w)"
    and life: "ttl = Some life \<and> life \<noteq> 0
               \<or> ttl = None \<and> timedelta_minutes (ACCESS_TOKEN_EXPIRE_MINUTES S) = Inr life"
    and lower: "datetime_min \<le> clock w (ticks w) + life"
    and upper: "clock w (ticks w) + life \<le> datetime_max"
  shows "\<exists>tok w'. create_access_token S w data ttl = (Inr tok, w')
       \<and> (ttl = None \<longrightarrow> life = ACCESS_TOKEN_EXPIRE_MINUTES S * 60000000)
       \<and> (\<forall>now. now < clock w (ticks w) + life \<longrightarrow>
            (\<exists>c. decode_token S now tok = Inr c
               \<and> c (str ''type'') = Some (Str (str ''access''))
               \<and> c (str ''exp'') = Some (Instant (clock w (ticks w) + life))))
       \<and> (\<forall>now. clock w (ticks w) + life < now \<longrightarrow>
            decode_token S now tok = Inl (TokenError expired))"
proof -
  let ?t = "clock w (ticks w)"
  have e: "access_expire S ?t ttl = Inr (?t + life)"
    using life lower upper by (auto simp: access_expire_def default_expire_def datetime_add_def)
  have m: "ttl = None \<longrightarrow> life = ACCESS_TOKEN_EXPIRE_MINUTES S * 60000000"
    using life by (auto dest: timedelta_minutes_Inr)
  show ?thesis
    using m by (simp add: create_access_token_eq[OF live] e decode_signed reserved_values)
qed

theorem access_token_decodes_until_expiry_witness:
  "(\<exists>tok w'. create_access_token example_settings example_world 0 (Some 5000000) = (Inr tok, w')
      \<and> (\<exists>c. decode_token example_settings 1001 tok = Inr c
            \<and> c (str ''type'') = Some (Str (str ''access''))
            \<and> c (str ''exp'') = Some (Instant 5001000))
      \<and> decode_token example_settings 5001001 tok = Inl (TokenError expired))
   \<and> (\<exists>tok w'. create_access_token example_settings example_world 0 None = (Inr tok, w')
      \<and> (\<exists>c. decode_token example_settings 1001 tok = Inr c
            \<and> c (str ''type'') = Some (Str (str ''access''))
            \<and> c (str ''exp'') = Some (Instant 1800001000))
      \<and> decode_token example_settings 1800001001 tok = Inl (TokenError expired))"
proof -
  have live: "0 < length (heap example_world)" by (simp add: example_world_def example_claims_def)
  have t: "clock example_world (ticks example_world) = 1000" by (simp add: example_world_def example_claims_def)
  have l1: "Some (5000000::int) = Some 5000000 \<and> (5000000::int) \<noteq> 0
            \<or> Some (5000000::int) = None
               \<and> timedelta_minutes (ACCESS_TOKEN_EXPIRE_MINUTES example_settings) = Inr 5000000"
    by simp
  have l2: "(None::int option) = Some 1800000000 \<and> (1800000000::int) \<noteq> 0
            \<or> (None::int option) = None
               \<and> timedelta_minutes (ACCESS_TOKEN_EXPIRE_MINUTES example_settings) = Inr 1800000000"
    by (simp add: example_settings_def timedelta_minutes_def timedelta_new_def)
  have a: "\<exists>tok w'. create_access_token example_settings example_world 0 (Some 5000000) = (Inr tok, w')
      \<and> (\<exists>c. decode_token example_settings 1001 tok = Inr c
            \<and> c (str ''type'') = Some (Str (str ''access''))
            \<and> c (str ''exp'') = Some (Instant 5001000))
      \<and> decode_token example_settings 5001001 tok = Inl (TokenError expired)"
    using access_token_decodes_until_expiry[OF live l1]
    by (simp add: t datetime_min_def datetime_max_def) fastforce
  have b: "\<exists>tok w'. create_access_token example_settings example_world 0 None = (Inr tok, w')
      \<and> (\<exists>c. decode_token example_settings 1001 tok = Inr c
            \<and> c (str ''type'') = Some (Str (str ''access''))
            \<and> c (str ''exp'') = Some (Instant 1800001000))
      \<and> decode_token example_settings 1800001001 tok = Inl (TokenError expired)"
    using access_token_decodes_until_expiry[OF live l2]
    by (simp add: t datetime_min_def datetime_max_def) fastforce
  from a b show ?thesis by blast
qed

text \<open>
  Claim C1 as stated fails in two ways.  For an override of zero, \<open>if expires_delta:\<close> is
  false, so the token expires after the configured thirty minutes and not at the issuance
  instant plus the override.  For a negative override the token is issued with an expiry
  in the past, and decoding it right after issuance fails.
\<close>

theorem access_token_override_counterexample:
  "(\<exists>tok w'. create_access_token example_settings example_world 0 (Some 0) = (Inr tok, w')
      \<and> (\<exists>c. decode_token example_settings 1002 tok = Inr c
            \<and> c (str ''exp'') = Some (Instant (1000 + 1800000000))
            \<and> c (str ''exp'') \<noteq> Some (Instant (1000 + 0))))
   \<and> (\<exists>tok w'. create_access_token example_settings example_world 0 (Some (- 5000000))
                   = (Inr tok, w')
      \<and> decode_token example_settings 1002 tok = Inl (TokenError expired))"
proof -
  have live: "0 < length (heap example_world)" by (simp add: example_world_def)
  have t: "clock example_world (ticks example_world) = 1000" by (simp add: example_world_def)
  have zero: "access_expire example_settings 1000 (Some 0) = Inr 1800001000"
    by (simp add: access_expire_def default_expire_def example_settings_def
        timedelta_minutes_def timedelta_new_def datetime_add_def datetime_min_def datetime_max_def)
  have negative: "access_expire example_settings 1000 (Some (- 5000000)) = Inr (- 4999000)"
    by (simp add: access_expire_def datetime_add_def datetime_min_def datetime_max_def)
  show ?thesis
    by (simp add: create_access_token_eq[OF live] t zero negative decode_signed reserved_values)
qed

text \<open>
  Claim C5.  The values that the caller's dictionary holds under \<open>exp\<close>, \<open>iat\<close> or \<open>type\<close>
  leave no trace: a dictionary that differs from the caller's only under these names
  gives the same outcome, token or exception, for access and for refresh tokens; and in
  the issued token the three names carry the expiry instant, the issuance instant and
  the token type that issuance computes.
\<close>

theorem reserved_claims_take_precedence:
  assumes live: "data < length (heap w)"
    and same: "\<forall>k. k \<notin> reserved_names \<longrightarrow> c k = (heap w ! data) k"
  shows "fst (create_access_token S (set_dict w data c) data ttl)
           = fst (create_access_token S w data ttl)
       \<and> fst (create_refresh_token S (set_dict w data c) data)
           = fst (create_refresh_token S w data)
       \<and> (\<forall>e. access_expire S (clock w (ticks w)) ttl = Inr e \<longrightarrow>
            (\<exists>tok. fst (create_access_token S w data ttl) = Inr tok
               \<and> payload tok (str ''exp'') = Some (Instant e)
               \<and> payload tok (str ''iat'') = Some (Instant (clock w (Suc (ticks w))))
               \<and> payload tok (str ''type'') = Some (Str (str ''access''))))
       \<and> (\<forall>e. refresh_expire S (clock w (ticks w)) = Inr e \<longrightarrow>
            (\<exists>tok. fst (create_refresh_token S w data) = Inr tok
               \<and> payload tok (str ''exp'') = Some (Instant e)
               \<and> payload tok (str ''iat'') = Some (Instant (clock w (Suc (ticks w))))
               \<and> payload tok (str ''type'') = Some (Str (str ''refresh''))))"
proof -
  let ?w = "set_dict w data c"
  have live': "data < length (heap ?w)" using live by (simp add: set_dict_def)
  have clk: "clock ?w = clock w" "ticks ?w = ticks w" by (simp_all add: set_dict_def)
  have dict: "heap ?w ! data = c" using live by (simp add: set_dict_def)
  have eq: "c ++ reserved e t ty = heap w ! data ++ reserved e t ty" for e t ty
    using same by (rule add_reserved_cong)
  have a: "fst (create_access_token S ?w data ttl) = fst (create_access_token S w data ttl)"
    by (simp add: create_access_token_eq[OF live] create_access_token_eq[OF live'] clk dict eq
        split: sum.splits)
  have b: "fst (create_refresh_token S ?w data) = fst (create_refresh_token S w data)"
    by (simp add: create_refresh_token_eq[OF live] create_refresh_token_eq[OF live'] clk dict eq
        split: sum.splits)
  have c: "\<forall>e. access_expire S (clock w (ticks w)) ttl = Inr e \<longrightarrow>
            (\<exists>tok. fst (create_access_token S w data ttl) = Inr tok
               \<and> payload tok (str ''exp'') = Some (Instant e)
               \<and> payload tok (str ''iat'') = Some (Instant (clock w (Suc (ticks w))))
               \<and> payload tok (str ''type'') = Some (Str (str ''access'')))"
    by (simp add: create_access_token_eq[OF live] payload_def reserved_values)
  have d: "\<forall>e. refresh_expire S (clock w (ticks w)) = Inr e \<longrightarrow>
            (\<exists>tok. fst (create_refresh_token S w data) = Inr tok
               \<and> payload tok (str ''exp'') = Some (Instant e)
               \<and> payload tok (str ''iat'') = Some (Instant (clock w (Suc (ticks w))))
               \<and> payload tok (str ''type'') = Some (Str (str ''refresh'')))"
    by (simp add: create_refresh_token_eq[OF live] payload_def reserved_values)
  from a b c d show ?thesis by blast
qed

theorem reserved_claims_take_precedence_witness:
  "fst (create_access_token example_settings
          (set_dict example_world 0 [str ''sub'' \<mapsto> Str (str ''user-1'')]) 0 None)
     = fst (create_access_token example_settings example_world 0 None)
   \<and> fst (create_refresh_token example_settings
          (set_dict example_world 0 [str ''sub'' \<mapsto> Str (str ''user-1'')]) 0)
     = fst (create_refresh_token example_settings example_world 0)
   \<and> (\<exists>tok. fst (create_access_token example_settings example_world 0 None) = Inr tok
         \<and> payload tok (str ''exp'') = Some (Instant 1800001000)
         \<and> payload tok (str ''iat'') = Some (Instant 1001)
         \<and> payload tok (str ''type'') = Some (Str (str ''access'')))
   \<and> (\<exists>tok. fst (create_refresh_token example_settings example_world 0) = Inr tok
         \<and> payload tok (str ''exp'') = Some (Instant 604800001000)
         \<and> payload tok (str ''iat'') = Some (Instant 1001)
         \<and> payload tok (str ''type'') = Some (Str (str ''refresh'')))"
proof -
  have live: "0 < length (heap example_world)" by (simp add: example_world_def example_claims_def)
  have same: "\<forall>k. k \<notin> reserved_names \<longrightarrow>
        [str ''sub'' \<mapsto> Str (str ''user-1'')] k = (heap example_world ! 0) k"
    by (simp add: example_world_def example_claims_def reserved_names_def)
  have t: "clock example_world (ticks example_world) = 1000"
    "clock example_world (Suc (ticks example_world)) = 1001"
    by (simp_all add: example_world_def example_claims_def)
  have ea: "access_expire example_settings 1000 None = Inr 1800001000"
    by (simp add: access_expire_def default_expire_def example_settings_def timedelta_minutes_def timedelta_new_def
        datetime_add_def datetime_min_def datetime_max_def)
  have er: "refresh_expire example_settings 1000 = Inr 604800001000"
    by (simp add: refresh_expire_def example_settings_def timedelta_days_def timedelta_new_def
        datetime_add_def datetime_min_def datetime_max_def)
  show ?thesis
    using reserved_claims_take_precedence
      [where data = 0 and w = example_world and S = example_settings and ttl = None
         and c = "[str ''sub'' \<mapsto> Str (str ''user-1'')]", OF live same] ea er
    by (simp add: t)
qed

text \<open>
  Claim C6.  A freshly issued refresh token decodes successfully at every instant before
  its expiry, and the decoded claims are the caller's claims with \<open>type\<close> equal to
  \<open>refresh\<close>.  Whether decoding accepts a signed token never depends on what the token
  holds under \<open>type\<close>.
\<close>

theorem refresh_token_accepted_by_decode:
  assumes live: "data < length (heap w)"
    and life: "timedelta_days (REFRESH_TOKEN_EXPIRE_DAYS S) = Inr life"
    and lower: "datetime_min \<le> clock w (ticks w) + life"
    and upper: "clock w (ticks w) + life \<le> datetime_max"
  shows "(\<exists>tok w'. create_refresh_token S w data = (Inr tok, w')
          \<and> (\<forall>now. now < clock w (ticks w) + life \<longrightarrow>
               (\<exists>c. decode_token S now tok = Inr c
                  \<and> c (str ''type'') = Some (Str (str ''refresh''))
                  \<and> (\<forall>k. k \<notin> reserved_names \<longrightarrow> c k = (heap w ! data) k))))
       \<and> (\<forall>now alg key c v.
             isl (decode_token S now (Signed alg key (c(str ''type'' := v))))
               = isl (decode_token S now (Signed alg key c)))"
proof -
  let ?t = "clock w (ticks w)"
  have e: "refresh_expire S ?t = Inr (?t + life)"
    using life lower upper by (simp add: refresh_expire_def datetime_add_def)
  have a: "\<exists>tok w'. create_refresh_token S w data = (Inr tok, w')
          \<and> (\<forall>now. now < ?t + life \<longrightarrow>
               (\<exists>c. decode_token S now tok = Inr c
                  \<and> c (str ''type'') = Some (Str (str ''refresh''))
                  \<and> (\<forall>k. k \<notin> reserved_names \<longrightarrow> c k = (heap w ! data) k)))"
    by (simp add: create_refresh_token_eq[OF live] e decode_signed reserved_values reserved_other)
  have b: "\<forall>now alg key c v.
             isl (decode_token S now (Signed alg key (c(str ''type'' := v))))
               = isl (decode_token S now (Signed alg key c))"
    by (simp add: decode_token_def split: option.splits claim_value.splits)
  from a b show ?thesis by blast
qed

theorem refresh_token_accepted_by_decode_witness:
  "\<exists>tok w'. create_refresh_token example_settings example_world 0 = (Inr tok, w')
     \<and> (\<exists>c. decode_token example_settings 1001 tok = Inr c
           \<and> c (str ''type'') = Some (Str (str ''refresh''))
           \<and> c (str ''sub'') = Some (Str (str ''user-1'')))"
proof -
  have live: "0 < length (heap example_world)" by (simp add: example_world_def example_claims_def)
  have t: "clock example_world (ticks example_world) = 1000" by (simp add: example_world_def example_claims_def)
  have l: "timedelta_days (REFRESH_TOKEN_EXPIRE_DAYS example_settings) = Inr 604800000000"
    by (simp add: example_settings_def timedelta_days_def timedelta_new_def)
  have lo: "datetime_min \<le> clock example_world (ticks example_world) + 604800000000"
    by (simp add: t datetime_min_def)
  have up: "clock example_world (ticks example_world) + 604800000000 \<le> datetime_max"
    by (simp add: t datetime_max_def)
  have sub: "str ''sub'' \<notin> reserved_names" by (simp add: reserved_names_def str_def)
  have d: "(heap example_world ! 0) (str ''sub'') = Some (Str (str ''user-1''))"
    by (simp add: example_world_def example_claims_def str_def)
  from refresh_token_accepted_by_decode[OF live l lo up]
  obtain tok w' where
    c: "create_refresh_token example_settings example_world 0 = (Inr tok, w')"
    and dec: "\<forall>now. now < clock example_world (ticks example_world) + 604800000000 \<longrightarrow>
               (\<exists>c. decode_token example_settings now tok = Inr c
                  \<and> c (str ''type'') = Some (Str (str ''refresh''))
                  \<and> (\<forall>k. k \<notin> reserved_names \<longrightarrow> c k = (heap example_world ! 0) k))"
    by blast
  have "(1001::int) < clock example_world (ticks example_world) + 604800000000"
    by (simp add: t)
  with dec obtain c' where "decode_token example_settings 1001 tok = Inr c'"
    "c' (str ''type'') = Some (Str (str ''refresh''))"
    "\<forall>k. k \<notin> reserved_names \<longrightarrow> c' k = (heap example_world ! 0) k"
    by blast
  with sub d c show ?thesis by auto
qed

text \<open>
  Claim C10.  Issuing a token does not mutate its input: after \<open>create_access_token\<close> and
  after \<open>create_refresh_token\<close> every dictionary that existed before the call, the caller's
  among them, holds the entries it held before, whether the call returns or raises.  When
  the call returns a token, the store has grown by exactly one dictionary, the internal
  copy, and that copy holds the encoded claims including \<open>exp\<close>, \<open>iat\<close> and \<open>type\<close>.
\<close>

theorem issuance_leaves_callers_dict_unchanged:
  "(r < length (heap w) \<longrightarrow>
      heap (snd (create_access_token S w data ttl)) ! r = heap w ! r
      \<and> heap (snd (create_refresh_token S w data)) ! r = heap w ! r)
   \<and> (\<forall>tok. fst (create_access_token S w data ttl) = Inr tok \<longrightarrow>
         heap (snd (create_access_token S w data ttl)) = heap w @ [payload tok])
   \<and> (\<forall>tok. fst (create_refresh_token S w data) = Inr tok \<longrightarrow>
         heap (snd (create_refresh_token S w data)) = heap w @ [payload tok])"
proof (cases "data < length (heap w)")
  case True
  then show ?thesis
    by (auto simp: create_access_token_eq create_refresh_token_eq nth_append payload_def
        split: sum.splits)
next
  case False
  then show ?thesis
    by (simp add: create_access_token_dead create_refresh_token_dead)
qed

theorem issuance_leaves_callers_dict_unchanged_witness:
  "heap (snd (create_access_token example_settings example_world 0 None)) ! 0 = example_claims
   \<and> heap (snd (create_refresh_token example_settings example_world 0)) ! 0 = example_claims"
proof -
  have "0 < length (heap example_world)" by (simp add: example_world_def)
  moreover have "heap example_world ! 0 = example_claims" by (simp add: example_world_def)
  ultimately show ?thesis
    using issuance_leaves_callers_dict_unchanged
      [of 0 example_world example_settings 0 None]
    by simp
qed

subsection \<open>One-time codes\<close>

lemma window_one: "[- 1 .. 1::int] = [-1, 0, 1]"
  by (simp add: upto.simps)

lemma verify_totp_iff:
  "verify_totp hotp secret code now \<longleftrightarrow>
     code = generate_otp hotp secret (timecode now - 1)
     \<or> code = generate_otp hotp secret (timecode now)
     \<or> code = generate_otp hotp secret (timecode now + 1)"
  by (auto simp: verify_totp_def totp_verify_def window_one)

lemma mod_ten_le: "(x::nat) mod 10 \<le> 9"
  using mod_less_divisor[of 10 x] by linarith

lemma six_digits_shape: "length (six_digits n) = 6 \<and> list_all ascii_digit (six_digits n)"
  by (simp add: six_digits_def ascii_digit_def mod_ten_le)

lemma generate_otp_shape:
  "length (generate_otp hotp secret c) = 6 \<and> list_all ascii_digit (generate_otp hotp secret c)"
  by (simp add: generate_otp_def six_digits_shape)

text \<open>
  Claim C7, as amended.  \<open>verify_totp\<close> accepts the code of the current 30-second step and
  the codes of the steps one period before and after it; it accepts a presented code
  exactly when it equals one of these three codes, so a code computed for a step further
  away is rejected unless it coincides with one of them; and it returns false for a code
  whose length is not six and for a code with a character that is no digit.
\<close>

theorem verify_totp_window:
  "verify_totp hotp secret (generate_otp hotp secret (timecode now - 1)) now
   \<and> verify_totp hotp secret (generate_otp hotp secret (timecode now)) now
   \<and> verify_totp hotp secret (generate_otp hotp secret (timecode now + 1)) now
   \<and> (verify_totp hotp secret code now \<longleftrightarrow>
        code = generate_otp hotp secret (timecode now - 1)
        \<or> code = generate_otp hotp secret (timecode now)
        \<or> code = generate_otp hotp secret (timecode now + 1))
   \<and> (length code \<noteq> 6 \<longrightarrow> \<not> verify_totp hotp secret code now)
   \<and> (\<not> list_all ascii_digit code \<longrightarrow> \<not> verify_totp hotp secret code now)"
  using generate_otp_shape[of hotp secret]
  by (auto simp: verify_totp_iff)

theorem verify_totp_window_witness:
  "verify_totp example_hotp (str ''JBSWY3DPEHPK3PXP'') (str ''336162'') 90000000
   \<and> verify_totp example_hotp (str ''JBSWY3DPEHPK3PXP'') (str ''440891'') 90000000
   \<and> verify_totp example_hotp (str ''JBSWY3DPEHPK3PXP'') (str ''545620'') 90000000
   \<and> \<not> verify_totp example_hotp (str ''JBSWY3DPEHPK3PXP'') (str ''44089'') 90000000
   \<and> \<not> verify_totp example_hotp (str ''JBSWY3DPEHPK3PXP'') (str ''44o891'') 90000000"
proof -
  have g: "generate_otp example_hotp (str ''JBSWY3DPEHPK3PXP'') (timecode 90000000 - 1) = str ''336162''"
    "generate_otp example_hotp (str ''JBSWY3DPEHPK3PXP'') (timecode 90000000) = str ''440891''"
    "generate_otp example_hotp (str ''JBSWY3DPEHPK3PXP'') (timecode 90000000 + 1) = str ''545620''"
    by (simp_all add: generate_otp_def example_hotp_def timecode_def six_digits_def str_def)
  have l: "length (str ''44089'') \<noteq> 6" by (simp add: str_def)
  have d: "\<not> list_all ascii_digit (str ''44o891'')" by (simp add: str_def ascii_digit_def)
  note short = verify_totp_window[of example_hotp "str ''JBSWY3DPEHPK3PXP''" 90000000 "str ''44089''"]
  note letter = verify_totp_window[of example_hotp "str ''JBSWY3DPEHPK3PXP''" 90000000 "str ''44o891''"]
  from short have accepted:
    "verify_totp example_hotp (str ''JBSWY3DPEHPK3PXP'')
       (generate_otp example_hotp (str ''JBSWY3DPEHPK3PXP'') (timecode 90000000 - 1)) 90000000"
    "verify_totp example_hotp (str ''JBSWY3DPEHPK3PXP'')
       (generate_otp example_hotp (str ''JBSWY3DPEHPK3PXP'') (timecode 90000000)) 90000000"
    "verify_totp example_hotp (str ''JBSWY3DPEHPK3PXP'')
       (generate_otp example_hotp (str ''JBSWY3DPEHPK3PXP'') (timecode 90000000 + 1)) 90000000"
    by blast+
  from short l have n1: "\<not> verify_totp example_hotp (str ''JBSWY3DPEHPK3PXP'') (str ''44089'') 90000000"
    by blast
  from letter d have n2: "\<not> verify_totp example_hotp (str ''JBSWY3DPEHPK3PXP'') (str ''44o891'') 90000000"
    by blast
  from accepted[unfolded g] n1 n2 show ?thesis by blast
qed

lemma far_step_collision:
  "\<exists>a b :: nat. a < b \<and> hotp secret (2 * int a) mod 1000000 = hotp secret (2 * int b) mod (1000000::nat)"
proof -
  let ?f = "\<lambda>k::nat. hotp secret (2 * int k) mod (1000000::nat)"
  have "?f ` {0..1000000} \<subseteq> {0..<1000000}" by auto
  then have "card (?f ` {0..1000000}) \<le> card {0..<1000000::nat}"
    by (rule card_mono[rotated]) simp
  then have "card (?f ` {0..1000000}) < card {0..1000000::nat}" by simp
  then have "\<not> inj_on ?f {0..1000000}" by (rule pigeonhole)
  then obtain x y where xy: "x \<noteq> y" "?f x = ?f y" by (auto simp: inj_on_def)
  show ?thesis
  proof (cases "x < y")
    case True
    with xy(2) show ?thesis by blast
  next
    case False
    with xy(1) have "y < x" by simp
    moreover from xy(2) have "?f y = ?f x" by simp
    ultimately show ?thesis by blast
  qed
qed

text \<open>
  Claim C7 as stated fails: there are only \<open>10\<^sup>6\<close> codes, so whatever the keyed hash and
  the secret, there is an instant and a step more than one period away from it whose code
  is accepted.
\<close>

theorem verify_totp_far_step_counterexample:
  "\<forall>hotp secret. \<exists>now step. 1 < \<bar>step - timecode now\<bar>
     \<and> verify_totp hotp secret (generate_otp hotp secret step) now"
proof (intro allI)
  fix hotp :: "pystr \<Rightarrow> int \<Rightarrow> nat" and secret :: pystr
  obtain a b :: nat where ab: "a < b"
    "hotp secret (2 * int a) mod 1000000 = hotp secret (2 * int b) mod 1000000"
    using far_step_collision[of hotp secret] by blast
  define now where "now = 2 * int a * 30000000"
  have tc: "timecode now = 2 * int a" by (simp add: timecode_def now_def)
  have far: "1 < \<bar>2 * int b - timecode now\<bar>" using ab(1) by (simp add: tc)
  have "generate_otp hotp secret (2 * int b) = generate_otp hotp secret (timecode now)"
    using ab(2) by (simp add: generate_otp_def tc)
  then have "verify_totp hotp secret (generate_otp hotp secret (2 * int b)) now"
    by (simp add: verify_totp_iff)
  with far show "\<exists>now step. 1 < \<bar>step - timecode now\<bar>
     \<and> verify_totp hotp secret (generate_otp hotp secret step) now"
    by blast
qed

subsection \<open>Backup codes\<close>

lemma hexdigits_upper:
  "list_all (\<lambda>d. length (upper_char U d) = 1 \<and> list_all hex_upper (upper_char U d))
     (str ''0123456789abcdef'')"
  by (simp add: str_def upper_char_def hex_upper_def)

lemma hexdigit_upper:
  assumes "n < 16"
  shows "length (upper_char U (hexdigit n)) = 1 \<and> list_all hex_upper (upper_char U (hexdigit n))"
proof -
  have "n < length (str ''0123456789abcdef'')" using assms by (simp add: str_def)
  with hexdigits_upper[of U] show ?thesis
    unfolding hexdigit_def list_all_length by blast
qed

lemma upper_hex_byte:
  "length (upper U [hexdigit (unat (b::byte) div 16), hexdigit (unat b mod 16)]) = 2
   \<and> list_all hex_upper (upper U [hexdigit (unat b div 16), hexdigit (unat b mod 16)])"
proof -
  have "unat b < 256" using unsigned_less[of b, where ?'a = nat] by simp
  then have "unat b div 16 < 16" "unat b mod 16 < 16" by simp_all
  from hexdigit_upper[OF this(1), of U] hexdigit_upper[OF this(2), of U]
  show ?thesis by (simp add: upper_def)
qed

lemma upper_append: "upper U (xs @ ys) = upper U xs @ upper U ys"
  by (simp add: upper_def)

lemma upper_hex:
  "length (upper U (hex bs)) = 2 * length bs \<and> list_all hex_upper (upper U (hex bs))"
proof (induction bs)
  case Nil
  show ?case by (simp add: hex_def upper_def)
next
  case (Cons b bs)
  have "hex (b # bs) = [hexdigit (unat b div 16), hexdigit (unat b mod 16)] @ hex bs"
    by (simp add: hex_def)
  then have "upper U (hex (b # bs))
      = upper U [hexdigit (unat b div 16), hexdigit (unat b mod 16)] @ upper U (hex bs)"
    by (simp only: upper_append)
  with Cons upper_hex_byte[of U b] show ?case by simp
qed

lemma token_hex_code:
  "length (upper U (fst (token_hex n r))) = 2 * n
   \<and> list_all hex_upper (upper U (fst (token_hex n r)))"
  using upper_hex[of U "map (source r) [drawn r ..< drawn r + n]"]
  by (simp add: token_hex_def token_bytes_def)

lemma backup_loop_codes:
  "list_all backup_code codes \<Longrightarrow>
     length (fst (backup_loop U n codes r)) = length codes + n
     \<and> list_all backup_code (fst (backup_loop U n codes r))"
proof (induction n arbitrary: codes r)
  case 0
  then show ?case by simp
next
  case (Suc n)
  obtain h r' where h: "token_hex 4 r = (h, r')" by (cases "token_hex 4 r")
  have "backup_code (upper U h)"
    using token_hex_code[of U 4 r] h by (simp add: backup_code_def)
  with Suc.prems have "list_all backup_code (codes @ [upper U h])" by simp
  from Suc.IH[OF this, of r'] show ?case by (simp add: h)
qed

text \<open>
  Claim C9.  For every count \<open>n \<ge> 0\<close>, \<open>generate_backup_codes(n)\<close> returns exactly \<open>n\<close> codes,
  and ten codes when no count is given; every code it returns, for whatever count, has
  exactly eight characters, each of them one of \<open>0-9\<close> and \<open>A-F\<close>.
\<close>

theorem generate_backup_codes_shape:
  "(0 \<le> n \<longrightarrow> int (length (fst (generate_backup_codes U (Some n) r))) = n)
   \<and> length (fst (generate_backup_codes U None r)) = 10
   \<and> list_all backup_code (fst (generate_backup_codes U count r))"
  using backup_loop_codes[of "[]" U _ r]
  by (simp add: generate_backup_codes_def)

lemma example_codes:
  "fst (generate_backup_codes example_db (Some 2) example_rng) = [str ''ABD0F51A'', str ''3F6489AE'']"
  by code_simp

theorem generate_backup_codes_shape_witness:
  "int (length (fst (generate_backup_codes example_db (Some 2) example_rng))) = 2
   \<and> length (fst (generate_backup_codes example_db None example_rng)) = 10
   \<and> list_all backup_code (fst (generate_backup_codes example_db (Some 2) example_rng))
   \<and> fst (generate_backup_codes example_db (Some 2) example_rng)
       = [str ''ABD0F51A'', str ''3F6489AE'']"
  using generate_backup_codes_shape[of 2 example_db example_rng "Some 2"] example_codes
  by simp

subsection \<open>Password validation\<close>


end
